theory Spec2Isabelle
  imports Main
begin

section \<open>The schedule store of \<^verbatim>\<open>packages/scheduler/lib/models/schedules.ts\<close>\<close>

subsection \<open>Values\<close>

text \<open>
  Modelled from the spec: the type \<^verbatim>\<open>ScheduleState\<close> is imported from \<^verbatim>\<open>../types\<close>, which is
  not among the sources. The spec (data model) gives it as one of
  \<^verbatim>\<open>STARTED | PAUSED | DELETED\<close>; the transition table of the source uses the same three
  string constants. \<open>ScheduleState_str\<close> is the string a template literal prints for it.
\<close>

datatype ScheduleState = STARTED | PAUSED | DELETED

fun ScheduleState_str :: "ScheduleState \<Rightarrow> string" where
  "ScheduleState_str STARTED = ''STARTED''"
| "ScheduleState_str PAUSED = ''PAUSED''"
| "ScheduleState_str DELETED = ''DELETED''"

text \<open>
  \<^verbatim>\<open>JsonValue\<close> of type-fest. Numbers are kept to the integers: the store only ever asks
  of a payload whether it is truthy, and passes it through otherwise.
\<close>

datatype JsonValue =
    JNull
  | JBool bool
  | JNumber int
  | JString string
  | JArray "JsonValue list"
  | JObject "(string \<times> JsonValue) list"

text \<open>A \<^verbatim>\<open>Date\<close> is its number of milliseconds since the epoch.\<close>

type_synonym Date = int

text \<open>
  \<^verbatim>\<open>Result<T>\<close> of \<^verbatim>\<open>@nangohq/utils\<close>: \<^verbatim>\<open>Ok(value)\<close> or \<^verbatim>\<open>Err(new Error(message))\<close>. An error
  is its message.
\<close>

datatype 'a Result = Ok 'a | Err string

fun isErr :: "'a Result \<Rightarrow> bool" where
  "isErr (Ok _) = False"
| "isErr (Err _) = True"

fun isOk :: "'a Result \<Rightarrow> bool" where
  "isOk (Ok _) = True"
| "isOk (Err _) = False"

text \<open>The apostrophe of the messages, which a string literal cannot hold.\<close>

definition q :: string where
  "q = [CHR 0x27]"

subsection \<open>The state transition validator\<close>

text \<open>
  \<^verbatim>\<open>interface ScheduleStateTransition { from; to }\<close>. The fields are named \<open>from_state\<close> and
  \<open>to_state\<close> here.
\<close>

record ScheduleStateTransition =
  from_state :: ScheduleState
  to_state :: ScheduleState

definition validScheduleStateTransitions :: "ScheduleStateTransition list" where
  "validScheduleStateTransitions =
     [\<lparr>from_state = STARTED, to_state = PAUSED\<rparr>,
      \<lparr>from_state = STARTED, to_state = DELETED\<rparr>,
      \<lparr>from_state = PAUSED, to_state = STARTED\<rparr>]"

text \<open>
  \<^verbatim>\<open>ScheduleStateTransition.validate({ from, to })\<close>: \<^verbatim>\<open>Array.prototype.find\<close> returns the first
  element that satisfies the predicate, or \<^verbatim>\<open>undefined\<close>; every element of the table is an
  object, hence truthy.
\<close>

definition validate :: "ScheduleState \<Rightarrow> ScheduleState \<Rightarrow> ScheduleStateTransition Result" where
  "validate from_s to_s =
     (case find (\<lambda>t. from_state t = from_s \<and> to_state t = to_s) validScheduleStateTransitions of
        Some transition \<Rightarrow> Ok transition
      | None \<Rightarrow>
          Err (''Invalid state transition from '' @ ScheduleState_str from_s @ '' to ''
                 @ ScheduleState_str to_s))"

subsection \<open>The entity and its storage row\<close>

text \<open>
  Modelled from the spec: the type \<^verbatim>\<open>Schedule\<close> is imported from \<^verbatim>\<open>../types\<close>, which is not
  among the sources. Its fields are those the spec lists and \<^verbatim>\<open>DbSchedule.to\<close> and
  \<^verbatim>\<open>DbSchedule.from\<close> read and write. \<^verbatim>\<open>ScheduleProps\<close> is
  \<^verbatim>\<open>Omit<Schedule, 'id' | 'state' | 'createdAt' | 'updatedAt' | 'deletedAt'>\<close>, so \<open>Schedule\<close>
  is the record \<open>ScheduleProps\<close> extended by the five omitted fields. The field \<^verbatim>\<open>id\<close> is
  named \<open>id_s\<close>. \<^verbatim>\<open>frequencyMs\<close> is a JavaScript number; the model keeps it to the integers.
\<close>

record ScheduleProps =
  name :: string
  startsAt :: Date
  frequencyMs :: int
  payload :: JsonValue

record Schedule = ScheduleProps +
  id_s :: string
  state :: ScheduleState
  createdAt :: Date
  updatedAt :: Date
  deletedAt :: "Date option"

text \<open>
  \<^verbatim>\<open>interface DbSchedule\<close>. The column \<^verbatim>\<open>frequency\<close> is declared a string, and is one when a
  row is written (\<^verbatim>\<open>DbSchedule.to\<close>); a row that is read carries the structured interval of
  postgres-interval there (\<^verbatim>\<open>dbSchedule.frequency as any\<close> in \<^verbatim>\<open>DbSchedule.from\<close>). The record
  is therefore polymorphic in that column. The columns \<^verbatim>\<open>id\<close>, \<^verbatim>\<open>name\<close>, \<^verbatim>\<open>state\<close> and
  \<^verbatim>\<open>payload\<close> carry the suffix \<open>_col\<close>.
\<close>

record 'f DbSchedule =
  id_col :: string
  name_col :: string
  state_col :: ScheduleState
  starts_at :: Date
  frequency :: 'f
  payload_col :: JsonValue
  created_at :: Date
  updated_at :: Date
  deleted_at :: "Date option"

text \<open>The argument of \<^verbatim>\<open>postgresIntervalInMs\<close>: every field optional.\<close>

record PostgresInterval =
  years :: "int option"
  months :: "int option"
  days :: "int option"
  hours :: "int option"
  minutes :: "int option"
  seconds :: "int option"
  milliseconds :: "int option"

type_synonym Row = "PostgresInterval DbSchedule"

text \<open>\<^verbatim>\<open>x ?? d\<close>\<close>

fun nullish :: "'a option \<Rightarrow> 'a \<Rightarrow> 'a" where
  "nullish None d = d"
| "nullish (Some x) d = x"

definition postgresIntervalInMs :: "PostgresInterval \<Rightarrow> int" where
  "postgresIntervalInMs i =
     nullish (years i) 0 * 31536000000 +
     nullish (months i) 0 * 2592000000 +
     nullish (days i) 0 * 86400000 +
     nullish (hours i) 0 * 3600000 +
     nullish (minutes i) 0 * 60000 +
     nullish (seconds i) 0 * 1000 +
     nullish (milliseconds i) 0"

text \<open>
  The decimal numeral a template literal prints for an integer: \<^verbatim>\<open>`${n}`\<close>. (A JavaScript
  number prints so up to \<open>10\<^sup>2\<^sup>1\<close>; the model prints every integer so.)
\<close>

definition digit_char :: "nat \<Rightarrow> char" where
  "digit_char d = ''0123456789'' ! d"

fun nat_str :: "nat \<Rightarrow> string" where
  "nat_str n = (if n < 10 then [digit_char n] else nat_str (n div 10) @ [digit_char (n mod 10)])"

declare nat_str.simps [simp del]

definition Number_str :: "int \<Rightarrow> string" where
  "Number_str n = (if n < 0 then CHR ''-'' # nat_str (nat (- n)) else nat_str (nat n))"

definition DbSchedule_to :: "Schedule \<Rightarrow> string DbSchedule" where
  "DbSchedule_to schedule =
     \<lparr>id_col = id_s schedule,
      name_col = name schedule,
      state_col = state schedule,
      starts_at = startsAt schedule,
      frequency = Number_str (frequencyMs schedule) @ '' milliseconds'',
      payload_col = payload schedule,
      created_at = createdAt schedule,
      updated_at = updatedAt schedule,
      deleted_at = deletedAt schedule\<rparr>"

definition DbSchedule_from :: "Row \<Rightarrow> Schedule" where
  "DbSchedule_from dbSchedule =
     \<lparr>name = name_col dbSchedule,
      startsAt = starts_at dbSchedule,
      frequencyMs = postgresIntervalInMs (frequency dbSchedule),
      payload = payload_col dbSchedule,
      id_s = id_col dbSchedule,
      state = state_col dbSchedule,
      createdAt = created_at dbSchedule,
      updatedAt = updated_at dbSchedule,
      deletedAt = deleted_at dbSchedule\<rparr>"

subsection \<open>The storage handle\<close>

text \<open>
  The statements the operations build with the query builder. \<open>Changes\<close> is the object
  given to \<^verbatim>\<open>.update(...)\<close>: a key that is absent is \<open>None\<close>.
\<close>

record Changes =
  state_set :: "ScheduleState option"
  frequency_set :: "string option"
  payload_set :: "JsonValue option"
  updated_at_set :: "Date option"
  deleted_at_set :: "Date option"

datatype Query =
    Insert "string DbSchedule"
      \<comment> \<open>\<^verbatim>\<open>.insert(row).returning('*')\<close>\<close>
  | WhereIdFirst string
      \<comment> \<open>\<^verbatim>\<open>.where('id', id).first()\<close>\<close>
  | WhereIdUpdate string Changes
      \<comment> \<open>\<^verbatim>\<open>.where('id', id).update(values).returning('*')\<close>\<close>
  | LimitWhere int "string option" "ScheduleState option"
      \<comment> \<open>\<^verbatim>\<open>.limit(n)\<close>, then \<^verbatim>\<open>.where('name', n)\<close> and \<^verbatim>\<open>.where('state', s)\<close> where present\<close>

text \<open>
  The handle \<^verbatim>\<open>db: knex.Knex\<close> is how the storage engine answers a statement in a state of
  its own: it throws (\<open>Inl\<close>, the fault as \<^verbatim>\<open>stringifyError\<close> prints it) or returns rows
  (\<open>Inr\<close>), and leaves a new state. The operations are written over any such handle.
\<close>

type_synonym 'db Knex = "Query \<Rightarrow> 'db \<Rightarrow> (string + Row list) \<times> 'db"

subsection \<open>Persistence operations\<close>

text \<open>
  \<^verbatim>\<open>new Date()\<close> and \<^verbatim>\<open>uuidv7()\<close> are inputs (\<open>now\<close>, \<open>uuid\<close>). Each operation returns its
  \<open>Result\<close> and the state the engine is left in. The \<^verbatim>\<open>catch\<close> clause of an operation is the
  \<open>Inl\<close> branch of its statement; \<^verbatim>\<open>!rows?.[0]\<close> is the empty list of rows.
\<close>

text \<open>The constant \<^verbatim>\<open>newSchedule\<close> of \<^verbatim>\<open>create\<close>: the spread of \<^verbatim>\<open>props\<close>, then the keys set.\<close>

definition newSchedule :: "Date \<Rightarrow> string \<Rightarrow> ScheduleProps \<Rightarrow> Schedule" where
  "newSchedule now uuid props =
     \<lparr>name = name props,
      startsAt = now,
      frequencyMs = frequencyMs props,
      payload = payload props,
      id_s = uuid,
      state = STARTED,
      createdAt = now,
      updatedAt = now,
      deletedAt = None\<rparr>"

definition create :: "'db Knex \<Rightarrow> 'db \<Rightarrow> Date \<Rightarrow> string \<Rightarrow> ScheduleProps \<Rightarrow> Schedule Result \<times> 'db" where
  "create db st now uuid props =
     (case db (Insert (DbSchedule_to (newSchedule now uuid props))) st of
        (Inl err, st') \<Rightarrow>
          (Err (''Error creating schedule '' @ q @ name props @ q @ '': '' @ err), st')
      | (Inr [], st') \<Rightarrow>
          (Err (''Error: no schedule '' @ q @ name props @ q @ '' created''), st')
      | (Inr (inserted0 # _), st') \<Rightarrow>
          (Ok (DbSchedule_from inserted0), st'))"

definition get :: "'db Knex \<Rightarrow> 'db \<Rightarrow> string \<Rightarrow> Schedule Result \<times> 'db" where
  "get db st scheduleId =
     (case db (WhereIdFirst scheduleId) st of
        (Inl err, st') \<Rightarrow>
          (Err (''Error getting schedule '' @ q @ scheduleId @ q @ '': '' @ err), st')
      | (Inr [], st') \<Rightarrow>
          (Err (''Error: no schedule '' @ q @ scheduleId @ q @ '' found''), st')
      | (Inr (schedule # _), st') \<Rightarrow>
          (Ok (DbSchedule_from schedule), st'))"

definition transitionState ::
  "'db Knex \<Rightarrow> 'db \<Rightarrow> string \<Rightarrow> ScheduleState \<Rightarrow> Date \<Rightarrow> Schedule Result \<times> 'db" where
  "transitionState db st scheduleId to_s now =
     (case get db st scheduleId of
        (Err _, st1) \<Rightarrow>
          (Err (''Error: no schedule '' @ q @ scheduleId @ q @ '' found''), st1)
      | (Ok schedule, st1) \<Rightarrow>
          (case validate (state schedule) to_s of
             Err error \<Rightarrow> (Err error, st1)
           | Ok _ \<Rightarrow>
               (case db (WhereIdUpdate scheduleId
                           \<lparr>state_set = Some to_s, frequency_set = None, payload_set = None,
                            updated_at_set = Some now, deleted_at_set = None\<rparr>) st1 of
                  (Inl err, st2) \<Rightarrow>
                    (Err (''Error transitioning schedule '' @ q @ scheduleId @ q @ '': '' @ err), st2)
                | (Inr [], st2) \<Rightarrow>
                    (Err (''Error: no schedule '' @ q @ scheduleId @ q @ '' updated''), st2)
                | (Inr (updated0 # _), st2) \<Rightarrow>
                    (Ok (DbSchedule_from updated0), st2))))"

text \<open>
  The argument of \<^verbatim>\<open>update\<close>:
  \<^verbatim>\<open>Partial<Pick<ScheduleProps, 'frequencyMs' | 'payload'>> & { id: string }\<close>. An optional
  key that is absent (or \<^verbatim>\<open>undefined\<close>) is \<open>None\<close>.
\<close>

record UpdateProps =
  id_p :: string
  frequencyMs_p :: "int option"
  payload_p :: "JsonValue option"

text \<open>
  What a JavaScript condition makes of a value: \<^verbatim>\<open>undefined\<close>, \<^verbatim>\<open>null\<close>, \<^verbatim>\<open>false\<close>, \<^verbatim>\<open>0\<close> and
  the empty string are falsy; every object and array is truthy. In \<^verbatim>\<open>update\<close>,
  \<^verbatim>\<open>props.frequencyMs ? ... : {}\<close> takes the first branch for a number that is present and not
  \<open>0\<close>, and \<^verbatim>\<open>props.payload ? ... : {}\<close> for a payload that is present and truthy.
\<close>

fun truthyJson :: "JsonValue \<Rightarrow> bool" where
  "truthyJson JNull = False"
| "truthyJson (JBool b) = b"
| "truthyJson (JNumber n) = (n \<noteq> 0)"
| "truthyJson (JString s) = (s \<noteq> [])"
| "truthyJson (JArray _) = True"
| "truthyJson (JObject _) = True"

text \<open>The constant \<^verbatim>\<open>newValues\<close> of \<^verbatim>\<open>update\<close>.\<close>

definition newValues :: "UpdateProps \<Rightarrow> Date \<Rightarrow> Changes" where
  "newValues props now =
     \<lparr>state_set = None,
      frequency_set =
        (case frequencyMs_p props of
           None \<Rightarrow> None
         | Some n \<Rightarrow> if n \<noteq> 0 then Some (Number_str n @ '' milliseconds'') else None),
      payload_set =
        (case payload_p props of
           None \<Rightarrow> None
         | Some p \<Rightarrow> if truthyJson p then Some p else None),
      updated_at_set = Some now,
      deleted_at_set = None\<rparr>"

definition update :: "'db Knex \<Rightarrow> 'db \<Rightarrow> UpdateProps \<Rightarrow> Date \<Rightarrow> Schedule Result \<times> 'db" where
  "update db st props now =
     (case db (WhereIdUpdate (id_p props) (newValues props now)) st of
        (Inl err, st') \<Rightarrow>
          (Err (''Error updating schedule '' @ q @ id_p props @ q @ '': '' @ err), st')
      | (Inr [], st') \<Rightarrow>
          (Err (''Error: no schedule '' @ q @ id_p props @ q @ '' updated''), st')
      | (Inr (updated0 # _), st') \<Rightarrow>
          (Ok (DbSchedule_from updated0), st'))"

definition remove :: "'db Knex \<Rightarrow> 'db \<Rightarrow> string \<Rightarrow> Date \<Rightarrow> Schedule Result \<times> 'db" where
  "remove db st ident now =
     (case db (WhereIdUpdate ident
                 \<lparr>state_set = Some DELETED, frequency_set = None, payload_set = None,
                  updated_at_set = Some now, deleted_at_set = Some now\<rparr>) st of
        (Inl err, st') \<Rightarrow>
          (Err (''Error deleting schedule '' @ q @ ident @ q @ '': '' @ err), st')
      | (Inr [], st') \<Rightarrow>
          (Err (''Error: no schedule '' @ q @ ident @ q @ '' deleted''), st')
      | (Inr (deleted0 # _), st') \<Rightarrow>
          (Ok (DbSchedule_from deleted0), st'))"

text \<open>
  The argument of \<^verbatim>\<open>search\<close>: \<^verbatim>\<open>{ name?: string; state?: ScheduleState; limit: number }\<close>.
  \<^verbatim>\<open>if (params.name)\<close> holds for a name that is present and not the empty string;
  \<^verbatim>\<open>if (params.state)\<close> holds for every state that is present, each of the three being a
  non-empty string.
\<close>

record SearchParams =
  name_q :: "string option"
  state_q :: "ScheduleState option"
  limit_q :: int

definition search :: "'db Knex \<Rightarrow> 'db \<Rightarrow> SearchParams \<Rightarrow> Schedule list Result \<times> 'db" where
  "search db st params =
     (case db (LimitWhere (limit_q params)
                 (case name_q params of
                    None \<Rightarrow> None
                  | Some n \<Rightarrow> if n \<noteq> [] then Some n else None)
                 (state_q params)) st of
        (Inl err, st') \<Rightarrow> (Err (''Error searching schedules: '' @ err), st')
      | (Inr schedules, st') \<Rightarrow> (Ok (map DbSchedule_from schedules), st'))"

subsection \<open>The storage engine\<close>

text \<open>
  Modelled from the spec: the relational engine behind the handle is not among the sources.
  The spec gives it at its boundary: an ACID key-row store, each statement atomic, with
  one table \<^verbatim>\<open>schedules\<close> whose primary key is \<^verbatim>\<open>id\<close> and whose column \<^verbatim>\<open>frequency\<close> has the type
  interval. \<open>pg\<close> is that store as a handle, the table being the list of its rows; the
  stateful properties are stated over it.

  The engine reads the literal \<^verbatim>\<open><n> milliseconds\<close> that the operations write
  (\<open>interval_in\<close>; any other text is a syntax fault here), and the driver hands the value
  back as postgres-interval, which the source names, parses the engine's
  \<^verbatim>\<open>hh:mm:ss.fff\<close> output (\<open>interval_out\<close>): hours, minutes, seconds and milliseconds, hours
  not carried into days, a field that is zero left out, the sign on every field. The
  range of the engine's interval type is not modelled.
\<close>

definition is_digit :: "char \<Rightarrow> bool" where
  "is_digit c = (c \<in> set ''0123456789'')"

definition digit_val :: "char \<Rightarrow> nat" where
  "digit_val c = of_char c - 48"

definition digits_val :: "string \<Rightarrow> nat option" where
  "digits_val ds =
     (if ds \<noteq> [] \<and> list_all is_digit ds
      then Some (foldl (\<lambda>a c. 10 * a + digit_val c) 0 ds) else None)"

definition interval_in :: "string \<Rightarrow> int option" where
  "interval_in lit =
     (let num = takeWhile (\<lambda>c. c \<noteq> CHR '' '') lit;
          unit = dropWhile (\<lambda>c. c \<noteq> CHR '' '') lit
      in if unit \<noteq> '' milliseconds'' then None
         else case num of
                [] \<Rightarrow> None
              | c # ds \<Rightarrow>
                  if c = CHR ''-'' then map_option (\<lambda>n. - int n) (digits_val ds)
                  else map_option int (digits_val num))"

definition interval_out :: "int \<Rightarrow> PostgresInterval" where
  "interval_out ms =
     (let a = \<bar>ms\<bar>;
          field = (\<lambda>v. if v = 0 then None else Some (if ms < 0 then - v else v))
      in \<lparr>years = None, months = None, days = None,
          hours = field (a div 3600000),
          minutes = field (a mod 3600000 div 60000),
          seconds = field (a mod 60000 div 1000),
          milliseconds = field (a mod 1000)\<rparr>)"

definition pg_interval :: "string \<Rightarrow> PostgresInterval option" where
  "pg_interval lit = map_option interval_out (interval_in lit)"

definition stored :: "PostgresInterval \<Rightarrow> string DbSchedule \<Rightarrow> Row" where
  "stored i r =
     \<lparr>id_col = id_col r, name_col = name_col r, state_col = state_col r,
      starts_at = starts_at r, frequency = i, payload_col = payload_col r,
      created_at = created_at r, updated_at = updated_at r, deleted_at = deleted_at r\<rparr>"

text \<open>\<open>set_columns c i r\<close>: the row \<open>r\<close> with the columns named in \<open>c\<close> overwritten.\<close>

definition set_columns :: "Changes \<Rightarrow> PostgresInterval option \<Rightarrow> Row \<Rightarrow> Row" where
  "set_columns c i r =
     r\<lparr>state_col := nullish (state_set c) (state_col r),
       frequency := nullish i (frequency r),
       payload_col := nullish (payload_set c) (payload_col r),
       updated_at := nullish (updated_at_set c) (updated_at r),
       deleted_at := (case deleted_at_set c of None \<Rightarrow> deleted_at r | Some d \<Rightarrow> Some d)\<rparr>"

definition update_where_id :: "string \<Rightarrow> Changes \<Rightarrow> PostgresInterval option \<Rightarrow> Row list \<Rightarrow> Row list" where
  "update_where_id i c f t = map (\<lambda>r. if id_col r = i then set_columns c f r else r) t"

definition matches :: "string option \<Rightarrow> ScheduleState option \<Rightarrow> Row \<Rightarrow> bool" where
  "matches n s r =
     ((case n of None \<Rightarrow> True | Some x \<Rightarrow> name_col r = x) \<and>
      (case s of None \<Rightarrow> True | Some x \<Rightarrow> state_col r = x))"

fun pg :: "Row list Knex" where
  "pg (Insert r) t =
     (case pg_interval (frequency r) of
        None \<Rightarrow> (Inl ''invalid input syntax for type interval'', t)
      | Some i \<Rightarrow>
          if id_col r \<in> set (map id_col t)
          then (Inl ''duplicate key value violates unique constraint'', t)
          else (Inr [stored i r], t @ [stored i r]))"
| "pg (WhereIdFirst i) t = (Inr (take 1 (filter (\<lambda>r. id_col r = i) t)), t)"
| "pg (WhereIdUpdate i c) t =
     (case frequency_set c of
        None \<Rightarrow>
          (Inr (filter (\<lambda>r. id_col r = i) (update_where_id i c None t)),
           update_where_id i c None t)
      | Some lit \<Rightarrow>
          (case pg_interval lit of
             None \<Rightarrow> (Inl ''invalid input syntax for type interval'', t)
           | Some f \<Rightarrow>
               (Inr (filter (\<lambda>r. id_col r = i) (update_where_id i c (Some f) t)),
                update_where_id i c (Some f) t)))"
| "pg (LimitWhere n nm s) t =
     (if n < 0 then (Inl ''LIMIT must not be negative'', t)
      else (Inr (take (nat n) (filter (matches nm s) t)), t))"

subsection \<open>Sample inputs\<close>

text \<open>A handle whose engine throws \<open>e\<close> at every statement, and one that returns no row.\<close>

definition failing :: "string \<Rightarrow> 'db Knex" where
  "failing e qry st = (Inl e, st)"

definition rowless :: "'db Knex" where
  "rowless qry st = (Inr [], st)"

text \<open>The reference engine with every write refused.\<close>

fun read_only :: "Row list Knex" where
  "read_only (WhereIdFirst i) t = pg (WhereIdFirst i) t"
| "read_only (LimitWhere n nm s) t = pg (LimitWhere n nm s) t"
| "read_only (Insert r) t = (Inl ''cannot execute INSERT in a read-only transaction'', t)"
| "read_only (WhereIdUpdate i c) t = (Inl ''cannot execute UPDATE in a read-only transaction'', t)"

text \<open>\<open>mentions s m\<close>: the text \<open>s\<close> stands somewhere in the message \<open>m\<close>.\<close>

fun mentions :: "string \<Rightarrow> string \<Rightarrow> bool" where
  "mentions s [] = (s = [])"
| "mentions s (c # cs) = (take (length s) (c # cs) = s \<or> mentions s cs)"

definition ex_props :: "int \<Rightarrow> ScheduleProps" where
  "ex_props n = \<lparr>name = ''a'', startsAt = 7, frequencyMs = n, payload = JObject []\<rparr>"

definition ex_schedule :: "int \<Rightarrow> Schedule" where
  "ex_schedule n = newSchedule 100 ''s1'' (ex_props n)"

text \<open>The table after \<^verbatim>\<open>create\<close> of \<open>ex_props n\<close> at time \<open>100\<close> under the id \<^verbatim>\<open>s1\<close>.\<close>

definition ex_table :: "int \<Rightarrow> Row list" where
  "ex_table n = snd (create pg [] 100 ''s1'' (ex_props n))"

section \<open>Properties\<close>

subsection \<open>The validator\<close>

lemma validate_eq:
  "validate f t =
     (if (f, t) \<in> {(STARTED, PAUSED), (STARTED, DELETED), (PAUSED, STARTED)}
      then Ok \<lparr>from_state = f, to_state = t\<rparr>
      else Err (''Invalid state transition from '' @ ScheduleState_str f @ '' to ''
                  @ ScheduleState_str t))"
  by (cases f; cases t) (simp_all add: validate_def validScheduleStateTransitions_def)

text \<open>
  C3. \<open>validate\<close> returns the matched transition exactly for the pairs STARTED to PAUSED,
  STARTED to DELETED and PAUSED to STARTED, and for every other pair fails with a message
  that names both states; so every self-transition, every transition out of DELETED, and
  PAUSED to DELETED fail.
\<close>

theorem validate_table:
  "validate f t =
     (if (f, t) \<in> {(STARTED, PAUSED), (STARTED, DELETED), (PAUSED, STARTED)}
      then Ok \<lparr>from_state = f, to_state = t\<rparr>
      else Err (''Invalid state transition from '' @ ScheduleState_str f @ '' to ''
                  @ ScheduleState_str t))
   \<and> isErr (validate f f) \<and> isErr (validate DELETED t) \<and> isErr (validate PAUSED DELETED)"
proof -
  have "isErr (validate f f)"
    by (cases f) (simp_all add: validate_eq)
  moreover have "isErr (validate DELETED t)"
    by (simp add: validate_eq)
  moreover have "isErr (validate PAUSED DELETED)"
    by (simp add: validate_eq)
  ultimately show ?thesis
    using validate_eq [of f t] by simp
qed

subsection \<open>The interval codec\<close>

lemma digit_char_props:
  assumes "d < 10"
  shows "is_digit (digit_char d)" and "digit_val (digit_char d) = d"
    and "digit_char d \<noteq> CHR '' ''" and "digit_char d \<noteq> CHR ''-''"
proof -
  from assms consider "d = 0" | "d = 1" | "d = 2" | "d = 3" | "d = 4" | "d = 5" | "d = 6"
    | "d = 7" | "d = 8" | "d = 9"
    by atomize_elim arith
  then have "is_digit (digit_char d) \<and> digit_val (digit_char d) = d
      \<and> digit_char d \<noteq> CHR '' '' \<and> digit_char d \<noteq> CHR ''-''"
    by cases (simp_all add: digit_char_def is_digit_def digit_val_def)
  then show "is_digit (digit_char d)" and "digit_val (digit_char d) = d"
    and "digit_char d \<noteq> CHR '' ''" and "digit_char d \<noteq> CHR ''-''"
    by simp_all
qed

lemma nat_str_digits: "list_all is_digit (nat_str n)"
proof (induction n rule: nat_str.induct)
  case (1 n)
  show ?case
  proof (cases "n < 10")
    case True
    then show ?thesis
      by (subst nat_str.simps) (simp add: digit_char_props)
  next
    case False
    with 1 show ?thesis
      by (subst nat_str.simps) (simp add: digit_char_props)
  qed
qed

lemma nat_str_nonempty: "nat_str n \<noteq> []"
  by (subst nat_str.simps) simp

lemma nat_str_value: "foldl (\<lambda>a c. 10 * a + digit_val c) 0 (nat_str n) = n"
proof (induction n rule: nat_str.induct)
  case (1 n)
  show ?case
  proof (cases "n < 10")
    case True
    then show ?thesis
      by (subst nat_str.simps) (simp add: digit_char_props)
  next
    case False
    with 1 show ?thesis
      by (subst nat_str.simps) (simp add: digit_char_props)
  qed
qed

lemma digits_val_nat_str: "digits_val (nat_str n) = Some n"
  by (simp add: digits_val_def nat_str_digits nat_str_nonempty nat_str_value)

lemma is_digit_not_space: "is_digit c \<Longrightarrow> c \<noteq> CHR '' ''"
  by (auto simp: is_digit_def)

lemma is_digit_not_minus: "is_digit c \<Longrightarrow> c \<noteq> CHR ''-''"
  by (auto simp: is_digit_def)

lemma nat_str_no_space: "\<forall>c \<in> set (nat_str n). c \<noteq> CHR '' ''"
  using nat_str_digits [of n] by (auto simp: list_all_iff dest: is_digit_not_space)

lemma hd_nat_str_not_minus: "nat_str n = c # cs \<Longrightarrow> c \<noteq> CHR ''-''"
  using nat_str_digits [of n] by (auto dest: is_digit_not_minus)

lemma Number_str_split:
  "takeWhile (\<lambda>c. c \<noteq> CHR '' '') (Number_str n @ '' milliseconds'') = Number_str n"
  "dropWhile (\<lambda>c. c \<noteq> CHR '' '') (Number_str n @ '' milliseconds'') = '' milliseconds''"
  using nat_str_no_space by (simp_all add: Number_str_def takeWhile_append2 dropWhile_append2)

lemma interval_in_literal: "interval_in (Number_str n @ '' milliseconds'') = Some n"
proof (cases "n < 0")
  case True
  then show ?thesis
    by (simp add: interval_in_def Number_str_split)
       (simp add: Number_str_def digits_val_nat_str)
next
  case False
  obtain c cs where cs: "nat_str (nat n) = c # cs"
    using nat_str_nonempty [of "nat n"] by (cases "nat_str (nat n)") auto
  with False show ?thesis
    by (simp add: interval_in_def Number_str_split)
       (use hd_nat_str_not_minus [OF cs] digits_val_nat_str [of "nat n"] in
         \<open>simp add: Number_str_def\<close>)
qed

lemma recombine:
  fixes a :: int
  shows "a div 3600000 * 3600000 + a mod 3600000 div 60000 * 60000
           + a mod 60000 div 1000 * 1000 + a mod 1000 = a"
proof -
  have 1: "a mod 60000 = a mod 3600000 mod 60000"
    by (simp add: mod_mod_cancel)
  have 2: "a mod 1000 = a mod 60000 mod 1000"
    by (simp add: mod_mod_cancel)
  have "a mod 60000 div 1000 * 1000 + a mod 1000 = a mod 60000"
    by (subst 2) simp
  moreover have "a mod 3600000 div 60000 * 60000 + a mod 60000 = a mod 3600000"
    by (subst 1) simp
  moreover have "a div 3600000 * 3600000 + a mod 3600000 = a"
    by simp
  ultimately show ?thesis by linarith
qed

lemma nullish_field:
  "nullish (if v = 0 then None else Some (if b then - v else v)) (0::int) = (if b then - v else v)"
  by simp

lemma postgresIntervalInMs_interval_out: "postgresIntervalInMs (interval_out ms) = ms"
proof -
  have "postgresIntervalInMs (interval_out ms) =
      (if ms < 0 then - 1 else 1) * (\<bar>ms\<bar> div 3600000 * 3600000 + \<bar>ms\<bar> mod 3600000 div 60000 * 60000
           + \<bar>ms\<bar> mod 60000 div 1000 * 1000 + \<bar>ms\<bar> mod 1000)"
    unfolding postgresIntervalInMs_def interval_out_def Let_def
    by (simp only: PostgresInterval.simps nullish_field nullish.simps) (simp add: algebra_simps)
  then show ?thesis
    by (simp only: recombine) simp
qed

subsection \<open>The reference engine and the operations over it\<close>

lemma pg_interval_literal: "pg_interval (Number_str n @ '' milliseconds'') = Some (interval_out n)"
  by (simp add: pg_interval_def interval_in_literal)

lemma find_filter_conv: "find P t = (case filter P t of [] \<Rightarrow> None | r # _ \<Rightarrow> Some r)"
  by (induction t) auto

lemma take1_filter: "take (Suc 0) (filter P t) = (case find P t of None \<Rightarrow> [] | Some r \<Rightarrow> [r])"
  by (induction t) auto

lemma get_pg:
  "get pg t i =
     (case find (\<lambda>r. id_col r = i) t of
        None \<Rightarrow> (Err (''Error: no schedule '' @ q @ i @ q @ '' found''), t)
      | Some r \<Rightarrow> (Ok (DbSchedule_from r), t))"
  by (simp add: get_def take1_filter split: option.splits)

lemma id_col_set_columns: "id_col (set_columns c f r) = id_col r"
  by (simp add: set_columns_def)

lemma filter_update_where_id:
  "filter (\<lambda>r. id_col r = i) (update_where_id i c f t) =
     map (set_columns c f) (filter (\<lambda>r. id_col r = i) t)"
  by (induction t) (simp_all add: update_where_id_def id_col_set_columns)

lemma find_update_where_id:
  "find (\<lambda>r. id_col r = j) (update_where_id i c f t) =
     map_option (\<lambda>r. if id_col r = i then set_columns c f r else r) (find (\<lambda>r. id_col r = j) t)"
  by (induction t) (simp_all add: update_where_id_def id_col_set_columns)

lemma update_where_id_absent:
  "find (\<lambda>r. id_col r = i) t = None \<Longrightarrow> update_where_id i c f t = t"
  by (induction t) (simp_all add: update_where_id_def split: if_splits)

lemma find_id_None_iff: "find (\<lambda>r. id_col r = i) t = None \<longleftrightarrow> i \<notin> set (map id_col t)"
  by (induction t) auto

text \<open>What the engine answers to an update by id.\<close>

lemma pg_update_answer:
  assumes "pg_lit = (case frequency_set c of None \<Rightarrow> Some None | Some lit \<Rightarrow> map_option Some (pg_interval lit))"
  shows "pg (WhereIdUpdate i c) t =
     (case pg_lit of
        None \<Rightarrow> (Inl ''invalid input syntax for type interval'', t)
      | Some f \<Rightarrow>
          (case find (\<lambda>r. id_col r = i) t of
             None \<Rightarrow> (Inr [], t)
           | Some r \<Rightarrow>
               (Inr (set_columns c f r # map (set_columns c f) (tl (filter (\<lambda>r. id_col r = i) t))),
                update_where_id i c f t)))"
proof -
  have cons: "map g (filter (\<lambda>r. id_col r = i) t) = g r # map g (tl (filter (\<lambda>r. id_col r = i) t))"
    if "find (\<lambda>r. id_col r = i) t = Some r" for r and g :: "Row \<Rightarrow> Row"
    using that by (simp add: find_filter_conv split: list.splits)
  have nil: "filter (\<lambda>r. id_col r = i) t = []" if "find (\<lambda>r. id_col r = i) t = None"
    using that by (simp add: find_filter_conv split: list.splits)
  show ?thesis
    unfolding assms
    by (auto simp: filter_update_where_id update_where_id_absent nil cons
        split: option.splits)
qed

lemma from_stored_to:
  "DbSchedule_from (stored (interval_out (frequencyMs s)) (DbSchedule_to s)) = s"
  by (simp add: DbSchedule_from_def stored_def DbSchedule_to_def postgresIntervalInMs_interval_out)

lemma create_pg:
  "create pg t now uuid props =
     (if uuid \<in> set (map id_col t)
      then (Err (''Error creating schedule '' @ q @ name props @ q
                   @ '': duplicate key value violates unique constraint''), t)
      else (Ok (newSchedule now uuid props),
            t @ [stored (interval_out (frequencyMs props)) (DbSchedule_to (newSchedule now uuid props))]))"
proof -
  have lit: "pg_interval (frequency (DbSchedule_to (newSchedule now uuid props)))
      = Some (interval_out (frequencyMs props))"
    by (simp add: DbSchedule_to_def newSchedule_def pg_interval_literal)
  have ident: "id_col (DbSchedule_to (newSchedule now uuid props)) = uuid"
    by (simp add: DbSchedule_to_def newSchedule_def)
  have freq: "frequencyMs (newSchedule now uuid props) = frequencyMs props"
    by (simp add: newSchedule_def)
  show ?thesis
    using from_stored_to [of "newSchedule now uuid props"]
    by (simp add: create_def lit ident freq)
qed

lemma DbSchedule_from_sel:
  "name (DbSchedule_from r) = name_col r"
  "startsAt (DbSchedule_from r) = starts_at r"
  "frequencyMs (DbSchedule_from r) = postgresIntervalInMs (frequency r)"
  "payload (DbSchedule_from r) = payload_col r"
  "id_s (DbSchedule_from r) = id_col r"
  "state (DbSchedule_from r) = state_col r"
  "createdAt (DbSchedule_from r) = created_at r"
  "updatedAt (DbSchedule_from r) = updated_at r"
  "deletedAt (DbSchedule_from r) = deleted_at r"
  by (simp_all add: DbSchedule_from_def)

lemma transitionState_pg:
  "transitionState pg t i to_s now =
     (case find (\<lambda>r. id_col r = i) t of
        None \<Rightarrow> (Err (''Error: no schedule '' @ q @ i @ q @ '' found''), t)
      | Some r \<Rightarrow>
          (case validate (state_col r) to_s of
             Err e \<Rightarrow> (Err e, t)
           | Ok _ \<Rightarrow>
               (Ok (DbSchedule_from
                      (set_columns \<lparr>state_set = Some to_s, frequency_set = None, payload_set = None,
                                    updated_at_set = Some now, deleted_at_set = None\<rparr> None r)),
                update_where_id i \<lparr>state_set = Some to_s, frequency_set = None, payload_set = None,
                                    updated_at_set = Some now, deleted_at_set = None\<rparr> None t)))"
  by (simp add: transitionState_def get_pg pg_update_answer [OF refl] DbSchedule_from_sel
      del: pg.simps split: option.splits Result.splits)

lemma update_pg:
  "update pg t props now =
     (case find (\<lambda>r. id_col r = id_p props) t of
        None \<Rightarrow> (Err (''Error: no schedule '' @ q @ id_p props @ q @ '' updated''), t)
      | Some r \<Rightarrow>
          (Ok (DbSchedule_from
                 (set_columns (newValues props now)
                    (case frequencyMs_p props of
                       None \<Rightarrow> None
                     | Some n \<Rightarrow> if n \<noteq> 0 then Some (interval_out n) else None) r)),
           update_where_id (id_p props) (newValues props now)
             (case frequencyMs_p props of
                None \<Rightarrow> None
              | Some n \<Rightarrow> if n \<noteq> 0 then Some (interval_out n) else None) t))"
proof -
  have "(case frequency_set (newValues props now) of
           None \<Rightarrow> Some None | Some lit \<Rightarrow> map_option Some (pg_interval lit))
      = Some (case frequencyMs_p props of
                None \<Rightarrow> None
              | Some n \<Rightarrow> if n \<noteq> 0 then Some (interval_out n) else None)"
    by (simp add: newValues_def pg_interval_literal split: option.splits)
  then show ?thesis
    by (simp add: update_def pg_update_answer [OF refl] del: pg.simps split: option.splits)
qed

lemma remove_pg:
  "remove pg t i now =
     (case find (\<lambda>r. id_col r = i) t of
        None \<Rightarrow> (Err (''Error: no schedule '' @ q @ i @ q @ '' deleted''), t)
      | Some r \<Rightarrow>
          (Ok (DbSchedule_from
                 (set_columns \<lparr>state_set = Some DELETED, frequency_set = None, payload_set = None,
                               updated_at_set = Some now, deleted_at_set = Some now\<rparr> None r)),
           update_where_id i \<lparr>state_set = Some DELETED, frequency_set = None, payload_set = None,
                               updated_at_set = Some now, deleted_at_set = Some now\<rparr> None t))"
  by (simp add: remove_def pg_update_answer [OF refl] del: pg.simps split: option.splits)

lemma DbSchedule_from_set_columns:
  "DbSchedule_from (set_columns c f r) =
     (DbSchedule_from r)
       \<lparr>frequencyMs := (case f of None \<Rightarrow> frequencyMs (DbSchedule_from r) | Some i \<Rightarrow> postgresIntervalInMs i),
        payload := nullish (payload_set c) (payload (DbSchedule_from r)),
        state := nullish (state_set c) (state (DbSchedule_from r)),
        updatedAt := nullish (updated_at_set c) (updatedAt (DbSchedule_from r)),
        deletedAt := (case deleted_at_set c of None \<Rightarrow> deletedAt (DbSchedule_from r) | Some d \<Rightarrow> Some d)\<rparr>"
  by (cases f; cases "deleted_at_set c") (simp_all add: DbSchedule_from_def set_columns_def)

lemma search_pg:
  "search pg t params =
     (if limit_q params < 0
      then (Err ''Error searching schedules: LIMIT must not be negative'', t)
      else (Ok (map DbSchedule_from
                  (take (nat (limit_q params))
                     (filter (matches (case name_q params of
                                         None \<Rightarrow> None
                                       | Some n \<Rightarrow> if n \<noteq> [] then Some n else None)
                                (state_q params)) t))), t))"
  by (simp add: search_def)



subsection \<open>Rows and the sample table\<close>

lemma stored_sel:
  "id_col (stored i r) = id_col r" "name_col (stored i r) = name_col r"
  "state_col (stored i r) = state_col r" "starts_at (stored i r) = starts_at r"
  "frequency (stored i r) = i" "payload_col (stored i r) = payload_col r"
  "created_at (stored i r) = created_at r" "updated_at (stored i r) = updated_at r"
  "deleted_at (stored i r) = deleted_at r"
  by (simp_all add: stored_def)

lemma DbSchedule_to_sel:
  "id_col (DbSchedule_to s) = id_s s" "name_col (DbSchedule_to s) = name s"
  "state_col (DbSchedule_to s) = state s" "starts_at (DbSchedule_to s) = startsAt s"
  "frequency (DbSchedule_to s) = Number_str (frequencyMs s) @ '' milliseconds''"
  "payload_col (DbSchedule_to s) = payload s"
  "created_at (DbSchedule_to s) = createdAt s" "updated_at (DbSchedule_to s) = updatedAt s"
  "deleted_at (DbSchedule_to s) = deletedAt s"
  by (simp_all add: DbSchedule_to_def)

lemma ex_table_eq:
  "ex_table n = [stored (interval_out n) (DbSchedule_to (ex_schedule n))]"
  by (simp add: ex_table_def create_pg ex_schedule_def ex_props_def)

lemma ex_schedule_sel:
  "name (ex_schedule n) = ''a''" "startsAt (ex_schedule n) = 100" "frequencyMs (ex_schedule n) = n"
  "payload (ex_schedule n) = JObject []" "id_s (ex_schedule n) = ''s1''"
  "state (ex_schedule n) = STARTED" "createdAt (ex_schedule n) = 100"
  "updatedAt (ex_schedule n) = 100" "deletedAt (ex_schedule n) = None"
  by (simp_all add: ex_schedule_def ex_props_def newSchedule_def)

lemma find_ex_table:
  "find (\<lambda>r. id_col r = ''s1'') (ex_table n) = Some (stored (interval_out n) (DbSchedule_to (ex_schedule n)))"
  by (simp add: ex_table_eq stored_def DbSchedule_to_def ex_schedule_sel)

lemma from_ex_row:
  "DbSchedule_from (stored (interval_out n) (DbSchedule_to (ex_schedule n))) = ex_schedule n"
  using from_stored_to [of "ex_schedule n"] by (simp add: ex_schedule_sel)

lemma get_ex_table: "get pg (ex_table n) ''s1'' = (Ok (ex_schedule n), ex_table n)"
  by (simp add: get_pg find_ex_table from_ex_row)

subsection \<open>Illegal transitions\<close>

text \<open>
  C2. When the schedule stored under \<open>i\<close> is in a state \<open>state s\<close> and the pair
  \<open>(state s, to_s)\<close> is not one of STARTED to PAUSED, STARTED to DELETED, PAUSED to STARTED,
  \<open>transitionState\<close> fails with the invalid-transition message and the table is the one it
  was given: no row is written.
\<close>

theorem transitionState_illegal:
  assumes "fst (get pg t i) = Ok s"
    and "(state s, to_s) \<notin> {(STARTED, PAUSED), (STARTED, DELETED), (PAUSED, STARTED)}"
  shows "transitionState pg t i to_s now =
           (Err (''Invalid state transition from '' @ ScheduleState_str (state s) @ '' to ''
                   @ ScheduleState_str to_s), t)"
proof -
  from assms(1) obtain r where r: "find (\<lambda>r. id_col r = i) t = Some r" and s: "s = DbSchedule_from r"
    by (auto simp: get_pg split: option.splits)
  have "validate (state_col r) to_s =
      Err (''Invalid state transition from '' @ ScheduleState_str (state s) @ '' to ''
             @ ScheduleState_str to_s)"
    using assms(2) by (simp add: validate_eq s DbSchedule_from_sel)
  then show ?thesis
    by (simp add: transitionState_pg r)
qed

theorem transitionState_illegal_witness:
  "fst (get pg (ex_table 5) ''s1'') = Ok (ex_schedule 5)
   \<and> (state (ex_schedule 5), STARTED) \<notin> {(STARTED, PAUSED), (STARTED, DELETED), (PAUSED, STARTED)}
   \<and> transitionState pg (ex_table 5) ''s1'' STARTED 200 =
       (Err ''Invalid state transition from STARTED to STARTED'', ex_table 5)"
proof -
  have g: "fst (get pg (ex_table 5) ''s1'') = Ok (ex_schedule 5)"
    by (simp add: get_ex_table)
  have p: "(state (ex_schedule 5), STARTED) \<notin> {(STARTED, PAUSED), (STARTED, DELETED), (PAUSED, STARTED)}"
    by (simp add: ex_schedule_sel)
  show ?thesis
    using transitionState_illegal [OF g p, of 200] g p by (simp add: ex_schedule_sel)
qed

subsection \<open>State DELETED and \<open>deletedAt\<close>\<close>

text \<open>
  C1. The invariant "\<open>deletedAt\<close> is set if and only if the state is DELETED" does not
  survive \<open>transitionState\<close>: on a schedule just created (STARTED), the legal transition to
  DELETED succeeds and writes the state and \<open>updated_at\<close> only, so the stored schedule is
  DELETED with \<open>deletedAt\<close> still null. (\<open>remove\<close> stamps \<open>deleted_at\<close>.)
\<close>

theorem transitionState_DELETED_without_deletedAt:
  "fst (get pg (ex_table 5) ''s1'') = Ok (ex_schedule 5)
   \<and> state (ex_schedule 5) = STARTED
   \<and> fst (transitionState pg (ex_table 5) ''s1'' DELETED 200)
       = Ok ((ex_schedule 5)\<lparr>state := DELETED, updatedAt := 200\<rparr>)
   \<and> fst (get pg (snd (transitionState pg (ex_table 5) ''s1'' DELETED 200)) ''s1'')
       = Ok ((ex_schedule 5)\<lparr>state := DELETED, updatedAt := 200\<rparr>)
   \<and> deletedAt ((ex_schedule 5)\<lparr>state := DELETED, updatedAt := 200\<rparr>) = None"
  by (simp add: get_ex_table ex_schedule_sel transitionState_pg find_ex_table validate_eq
      DbSchedule_from_set_columns from_ex_row get_pg find_update_where_id
      stored_sel DbSchedule_to_sel)

subsection \<open>\<open>create\<close>\<close>

lemma newSchedule_sel:
  "name (newSchedule now uuid props) = name props" "startsAt (newSchedule now uuid props) = now"
  "frequencyMs (newSchedule now uuid props) = frequencyMs props"
  "payload (newSchedule now uuid props) = payload props" "id_s (newSchedule now uuid props) = uuid"
  "state (newSchedule now uuid props) = STARTED" "createdAt (newSchedule now uuid props) = now"
  "updatedAt (newSchedule now uuid props) = now" "deletedAt (newSchedule now uuid props) = None"
  by (simp_all add: newSchedule_def)

lemma find_append_new:
  "i \<notin> set (map id_col t) \<Longrightarrow> id_col r = i \<Longrightarrow> find (\<lambda>r. id_col r = i) (t @ [r]) = Some r"
  by (induction t) auto

text \<open>
  C4. A \<open>create\<close> that succeeds on the reference engine returns a schedule in state STARTED
  with \<open>deletedAt\<close> null and \<open>startsAt\<close>, \<open>createdAt\<close> and \<open>updatedAt\<close> all equal to \<open>now\<close>,
  whatever \<open>startsAt\<close> the caller gave, and \<open>get\<close> finds it afterwards. Over any handle,
  when the engine answers the insert with no row, \<open>create\<close> fails with the message that
  no schedule of that name was created.
\<close>

theorem create_result:
  "(create pg t now uuid props = (Ok s, t') \<longrightarrow>
      state s = STARTED \<and> deletedAt s = None
      \<and> startsAt s = now \<and> createdAt s = now \<and> updatedAt s = now
      \<and> id_s s = uuid \<and> name s = name props \<and> frequencyMs s = frequencyMs props
      \<and> payload s = payload props
      \<and> get pg t' uuid = (Ok s, t'))
   \<and> (fst (db (Insert (DbSchedule_to (newSchedule now uuid props))) st) = Inr [] \<longrightarrow>
        fst (create db st now uuid props)
          = Err (''Error: no schedule '' @ q @ name props @ q @ '' created''))"
proof (intro conjI impI)
  assume ok: "create pg t now uuid props = (Ok s, t')"
  then have fresh: "uuid \<notin> set (map id_col t)"
    and s: "s = newSchedule now uuid props"
    and t': "t' = t @ [stored (interval_out (frequencyMs props)) (DbSchedule_to (newSchedule now uuid props))]"
    by (auto simp: create_pg split: if_splits)
  show "state s = STARTED" "deletedAt s = None" "startsAt s = now" "createdAt s = now"
    "updatedAt s = now" "id_s s = uuid" "name s = name props" "frequencyMs s = frequencyMs props"
    "payload s = payload props"
    by (simp_all add: s newSchedule_sel)
  have "find (\<lambda>r. id_col r = uuid) t'
      = Some (stored (interval_out (frequencyMs props)) (DbSchedule_to (newSchedule now uuid props)))"
    unfolding t' using fresh
    by (intro find_append_new) (simp_all add: stored_sel DbSchedule_to_sel newSchedule_sel)
  then show "get pg t' uuid = (Ok s, t')"
    using from_stored_to [of "newSchedule now uuid props"]
    by (simp add: get_pg s newSchedule_sel)
next
  assume "fst (db (Insert (DbSchedule_to (newSchedule now uuid props))) st) = Inr []"
  then show "fst (create db st now uuid props)
      = Err (''Error: no schedule '' @ q @ name props @ q @ '' created'')"
    by (cases "db (Insert (DbSchedule_to (newSchedule now uuid props))) st")
       (simp add: create_def)
qed

theorem create_result_witness:
  "create pg [] 100 ''s1'' (ex_props 5) = (Ok (ex_schedule 5), ex_table 5)
   \<and> state (ex_schedule 5) = STARTED \<and> deletedAt (ex_schedule 5) = None
   \<and> startsAt (ex_props 5) = 7 \<and> startsAt (ex_schedule 5) = 100
   \<and> createdAt (ex_schedule 5) = 100 \<and> updatedAt (ex_schedule 5) = 100
   \<and> get pg (ex_table 5) ''s1'' = (Ok (ex_schedule 5), ex_table 5)
   \<and> fst (rowless (Insert (DbSchedule_to (newSchedule 100 ''s1'' (ex_props 5)))) ()) = Inr []
   \<and> fst (create rowless () 100 ''s1'' (ex_props 5))
       = Err (''Error: no schedule '' @ q @ ''a'' @ q @ '' created'')"
proof -
  have c: "create pg [] 100 ''s1'' (ex_props 5) = (Ok (ex_schedule 5), ex_table 5)"
    by (simp add: create_pg ex_table_def ex_schedule_def)
  have r: "fst (rowless (Insert (DbSchedule_to (newSchedule 100 ''s1'' (ex_props 5)))) ()) = Inr []"
    by (simp add: rowless_def)
  show ?thesis
    using create_result [where t = "[]" and now = 100 and uuid = "''s1''" and props = "ex_props 5"
        and s = "ex_schedule 5" and t' = "ex_table 5" and db = rowless and st = "()"] c r
    by (simp add: ex_props_def)
qed

subsection \<open>\<open>remove\<close>\<close>

lemma map_id_col_update_where_id: "map id_col (update_where_id i c f t) = map id_col t"
  by (induction t) (simp_all add: update_where_id_def id_col_set_columns)

lemma map_id_col_remove: "map id_col (snd (remove pg t i now)) = map id_col t"
  by (simp add: remove_pg map_id_col_update_where_id split: option.splits)

text \<open>
  C7. On the reference engine \<open>remove\<close> fails exactly when no row has the id. When a row
  has it, whatever its state, \<open>remove\<close> succeeds with state DELETED and \<open>deletedAt\<close> and
  \<open>updatedAt\<close> equal to \<open>now\<close>, and \<open>get\<close> returns that schedule afterwards. (\<open>remove\<close> does
  not call \<open>validate\<close>.)
\<close>

theorem remove_deletes:
  "(isErr (fst (remove pg t i now)) \<longleftrightarrow> i \<notin> set (map id_col t))
   \<and> (i \<in> set (map id_col t) \<longrightarrow>
        (\<exists>s t'. remove pg t i now = (Ok s, t')
           \<and> state s = DELETED \<and> deletedAt s = Some now \<and> updatedAt s = now \<and> id_s s = i
           \<and> get pg t' i = (Ok s, t')))"
proof (cases "find (\<lambda>r. id_col r = i) t")
  case None
  then show ?thesis
    using find_id_None_iff [of i t] by (simp add: remove_pg)
next
  case (Some r)
  then have mem: "i \<in> set (map id_col t)"
    using find_id_None_iff [of i t] by simp
  have idr: "id_col r = i"
    using Some by (auto simp: find_Some_iff)
  show ?thesis
    using mem
    by (simp add: remove_pg Some get_pg find_update_where_id DbSchedule_from_set_columns
        DbSchedule_from_sel idr)
qed

theorem remove_deletes_witness:
  "''s1'' \<in> set (map id_col (ex_table 5))
   \<and> fst (remove pg (ex_table 5) ''s1'' 300)
       = Ok ((ex_schedule 5)\<lparr>state := DELETED, updatedAt := 300, deletedAt := Some 300\<rparr>)
   \<and> (\<exists>s t'. remove pg (ex_table 5) ''s1'' 300 = (Ok s, t')
           \<and> state s = DELETED \<and> deletedAt s = Some 300 \<and> updatedAt s = 300 \<and> id_s s = ''s1''
           \<and> get pg t' ''s1'' = (Ok s, t'))
   \<and> ''s1'' \<in> set (map id_col (snd (remove pg (ex_table 5) ''s1'' 300)))
   \<and> (\<exists>s t'. remove pg (snd (remove pg (ex_table 5) ''s1'' 300)) ''s1'' 400 = (Ok s, t')
           \<and> state s = DELETED \<and> deletedAt s = Some 400 \<and> updatedAt s = 400 \<and> id_s s = ''s1''
           \<and> get pg t' ''s1'' = (Ok s, t'))
   \<and> ''s2'' \<notin> set (map id_col (ex_table 5))
   \<and> isErr (fst (remove pg (ex_table 5) ''s2'' 300))"
proof -
  have m: "''s1'' \<in> set (map id_col (ex_table 5))" and n: "''s2'' \<notin> set (map id_col (ex_table 5))"
    by (simp_all add: ex_table_eq stored_sel DbSchedule_to_sel ex_schedule_sel)
  have m2: "''s1'' \<in> set (map id_col (snd (remove pg (ex_table 5) ''s1'' 300)))"
    using m by (simp only: map_id_col_remove)
  have r: "fst (remove pg (ex_table 5) ''s1'' 300)
       = Ok ((ex_schedule 5)\<lparr>state := DELETED, updatedAt := 300, deletedAt := Some 300\<rparr>)"
    by (simp add: remove_pg find_ex_table DbSchedule_from_set_columns from_ex_row)
  show ?thesis
    using remove_deletes [of "ex_table 5" "''s1''" 300]
      remove_deletes [of "snd (remove pg (ex_table 5) ''s1'' 300)" "''s1''" 400]
      remove_deletes [of "ex_table 5" "''s2''" 300] m m2 n r
    by simp
qed

subsection \<open>\<open>update\<close>\<close>

lemma find_id_col: "find (\<lambda>r. id_col r = i) t = Some r \<Longrightarrow> id_col r = i"
  by (auto simp: find_Some_iff)

lemma newValues_sel:
  "state_set (newValues props now) = None"
  "updated_at_set (newValues props now) = Some now"
  "deleted_at_set (newValues props now) = None"
  "payload_set (newValues props now) =
     (case payload_p props of None \<Rightarrow> None | Some p \<Rightarrow> if truthyJson p then Some p else None)"
  by (simp_all add: newValues_def)



text \<open>
  C10. Presence is decided by truthiness. When a row \<open>r\<close> is stored under the id, \<open>update\<close>
  succeeds and the row \<open>r'\<close> stored afterwards has \<open>updated_at = now\<close>; a supplied frequency
  of \<open>0\<close> leaves the column \<open>frequency\<close> as it was, and a supplied payload that is \<^verbatim>\<open>null\<close>,
  \<^verbatim>\<open>false\<close>, \<open>0\<close> or the empty string leaves the column \<open>payload\<close> as it was.
\<close>

theorem update_falsy_fields:
  "find (\<lambda>r. id_col r = id_p props) t = Some r \<Longrightarrow>
     \<exists>r' t'. update pg t props now = (Ok (DbSchedule_from r'), t')
        \<and> find (\<lambda>r. id_col r = id_p props) t' = Some r'
        \<and> updated_at r' = now
        \<and> (frequencyMs_p props = Some 0 \<longrightarrow> frequency r' = frequency r)
        \<and> (payload_p props \<in> {Some JNull, Some (JBool False), Some (JNumber 0), Some (JString [])}
             \<longrightarrow> payload_col r' = payload_col r)"
proof -
  assume r: "find (\<lambda>r. id_col r = id_p props) t = Some r"
  have pl: "payload_set (newValues props now) = None"
    if "payload_p props \<in> {Some JNull, Some (JBool False), Some (JNumber 0), Some (JString [])}"
    using that by (auto simp: newValues_sel)
  show ?thesis
    by (auto simp: update_pg r find_update_where_id find_id_col [OF r] set_columns_def
        newValues_sel(2) pl)
qed

theorem update_falsy_fields_witness:
  "find (\<lambda>r. id_col r = ''s1'') (ex_table 5)
     = Some (stored (interval_out 5) (DbSchedule_to (ex_schedule 5)))
   \<and> (\<exists>r' t'. update pg (ex_table 5)
                  \<lparr>id_p = ''s1'', frequencyMs_p = Some 0, payload_p = Some (JString [])\<rparr> 300
                  = (Ok (DbSchedule_from r'), t')
         \<and> find (\<lambda>r. id_col r = ''s1'') t' = Some r'
         \<and> updated_at r' = 300
         \<and> frequency r' = interval_out 5
         \<and> payload_col r' = JObject [])"
proof -
  have f: "find (\<lambda>r. id_col r = id_p \<lparr>id_p = ''s1'', frequencyMs_p = Some 0, payload_p = Some (JString [])\<rparr>)
      (ex_table 5) = Some (stored (interval_out 5) (DbSchedule_to (ex_schedule 5)))"
    by (simp add: find_ex_table)
  show ?thesis
    using update_falsy_fields [OF f, of 300] f
    by (simp add: stored_sel DbSchedule_to_sel ex_schedule_sel)
qed

subsection \<open>\<open>search\<close>\<close>

text \<open>
  C9, as amended. On the reference engine, for a limit that is not negative, \<open>search\<close>
  succeeds with the first \<open>limit\<close> rows that match, so with at most \<open>limit\<close> schedules, each
  of the supplied state and, when the supplied name is not the empty string, of that name
  (an empty name filters nothing); the list may be empty. Over any handle, \<open>search\<close> fails
  exactly when the engine throws at its statement, and an answer of no rows is the
  success \<open>Ok []\<close>.
\<close>

theorem search_result:
  "(0 \<le> limit_q params \<longrightarrow>
      (\<exists>ss. search pg t params = (Ok ss, t)
         \<and> ss = map DbSchedule_from
                  (take (nat (limit_q params))
                     (filter (matches (case name_q params of
                                         None \<Rightarrow> None
                                       | Some n \<Rightarrow> if n \<noteq> [] then Some n else None)
                                (state_q params)) t))
         \<and> length ss \<le> nat (limit_q params)
         \<and> (\<forall>s \<in> set ss.
               (\<forall>n. name_q params = Some n \<and> n \<noteq> [] \<longrightarrow> name s = n)
               \<and> (\<forall>x. state_q params = Some x \<longrightarrow> state s = x))))
   \<and> isErr (fst (search db st params))
       = isl (fst (db (LimitWhere (limit_q params)
                         (case name_q params of
                            None \<Rightarrow> None
                          | Some n \<Rightarrow> if n \<noteq> [] then Some n else None)
                         (state_q params)) st))
   \<and> (fst (db (LimitWhere (limit_q params)
                  (case name_q params of
                     None \<Rightarrow> None
                   | Some n \<Rightarrow> if n \<noteq> [] then Some n else None)
                  (state_q params)) st) = Inr [] \<longrightarrow>
        fst (search db st params) = Ok [])"
proof (intro conjI impI)
  let ?nm = "case name_q params of None \<Rightarrow> None | Some n \<Rightarrow> if n \<noteq> [] then Some n else None"
  let ?rows = "take (nat (limit_q params)) (filter (matches ?nm (state_q params)) t)"
  assume lim: "0 \<le> limit_q params"
  have sel: "(\<forall>n. name_q params = Some n \<and> n \<noteq> [] \<longrightarrow> name_col r = n)
      \<and> (\<forall>x. state_q params = Some x \<longrightarrow> state_col r = x)" if "r \<in> set ?rows" for r
  proof -
    from that have "matches ?nm (state_q params) r"
      by (auto dest: in_set_takeD)
    then show ?thesis
      by (auto simp: matches_def)
  qed
  show "\<exists>ss. search pg t params = (Ok ss, t)
         \<and> ss = map DbSchedule_from ?rows
         \<and> length ss \<le> nat (limit_q params)
         \<and> (\<forall>s \<in> set ss.
               (\<forall>n. name_q params = Some n \<and> n \<noteq> [] \<longrightarrow> name s = n)
               \<and> (\<forall>x. state_q params = Some x \<longrightarrow> state s = x))"
    using lim sel by (simp add: search_pg DbSchedule_from_sel) blast
next
  show "isErr (fst (search db st params))
       = isl (fst (db (LimitWhere (limit_q params)
                         (case name_q params of
                            None \<Rightarrow> None
                          | Some n \<Rightarrow> if n \<noteq> [] then Some n else None)
                         (state_q params)) st))"
    by (simp add: search_def split: prod.splits sum.splits)
next
  assume "fst (db (LimitWhere (limit_q params)
                  (case name_q params of
                     None \<Rightarrow> None
                   | Some n \<Rightarrow> if n \<noteq> [] then Some n else None)
                  (state_q params)) st) = Inr []"
  then show "fst (search db st params) = Ok []"
    by (auto simp: search_def split: prod.splits sum.splits)
qed

text \<open>
  C9 as stated fails: with the name filter \<^verbatim>\<open>''\<close> supplied, \<open>search\<close> returns the schedule named
  \<^verbatim>\<open>a\<close>.
\<close>

theorem search_empty_name_counterexample:
  "search pg (ex_table 5) \<lparr>name_q = Some [], state_q = None, limit_q = 10\<rparr>
     = (Ok [ex_schedule 5], ex_table 5)
   \<and> name (ex_schedule 5) \<noteq> []"
  by (simp add: search_pg matches_def ex_table_eq from_ex_row ex_schedule_sel)

theorem search_result_witness:
  "(0::int) \<le> 1
   \<and> search pg (ex_table 5) \<lparr>name_q = Some ''a'', state_q = Some STARTED, limit_q = 1\<rparr>
       = (Ok [ex_schedule 5], ex_table 5)
   \<and> search pg (ex_table 5) \<lparr>name_q = Some ''a'', state_q = Some PAUSED, limit_q = 1\<rparr>
       = (Ok [], ex_table 5)
   \<and> fst (pg (LimitWhere 1 None None) []) = Inr []
   \<and> fst (search pg [] \<lparr>name_q = None, state_q = None, limit_q = 1\<rparr>) = Ok []
   \<and> isErr (fst (search (failing ''ECONNRESET'') () \<lparr>name_q = None, state_q = None, limit_q = 1\<rparr>))"
proof -
  have z: "fst (pg (LimitWhere 1 None None) []) = Inr []"
    by simp
  show ?thesis
    using search_result [of "\<lparr>name_q = Some ''a'', state_q = Some STARTED, limit_q = 1\<rparr>" "ex_table 5"
        pg "[]"]
      search_result [of "\<lparr>name_q = Some ''a'', state_q = Some PAUSED, limit_q = 1\<rparr>" "ex_table 5"
        pg "[]"]
      search_result [of "\<lparr>name_q = None, state_q = None, limit_q = 1\<rparr>" "[]" pg "[]"]
      search_result [of "\<lparr>name_q = None, state_q = None, limit_q = 1\<rparr>" "[]"
        "failing ''ECONNRESET''" "()"] z
    by (simp add: matches_def ex_table_eq from_ex_row stored_sel DbSchedule_to_sel ex_schedule_sel
        failing_def)
qed

subsection \<open>Faults of the engine\<close>

text \<open>
  C8, as amended. Every operation is a function into \<open>Result\<close>, over any handle. When the
  engine throws \<open>e\<close> at the statement of \<open>create\<close>, \<open>get\<close>, \<open>update\<close> or \<open>remove\<close>, or at
  the update statement of \<open>transitionState\<close>, the operation returns the error whose message
  names the operation, quotes the name (\<open>create\<close>) or the id, and ends with \<open>e\<close>; \<open>search\<close>
  returns the error that names the operation and ends with \<open>e\<close>. When the engine throws
  at the read of \<open>transitionState\<close>, the operation returns the not-found error for the id.
\<close>

theorem fault_rewrapped:
  "(fst (db (Insert (DbSchedule_to (newSchedule now uuid props))) st) = Inl e \<longrightarrow>
      fst (create db st now uuid props)
        = Err (''Error creating schedule '' @ q @ name props @ q @ '': '' @ e))
   \<and> (fst (db (WhereIdFirst i) st) = Inl e \<longrightarrow>
        fst (get db st i) = Err (''Error getting schedule '' @ q @ i @ q @ '': '' @ e)
        \<and> fst (transitionState db st i to_s now)
            = Err (''Error: no schedule '' @ q @ i @ q @ '' found''))
   \<and> (db (WhereIdFirst i) st = (Inr (r # rs), st') \<and> isOk (validate (state_col r) to_s)
        \<and> fst (db (WhereIdUpdate i
                     \<lparr>state_set = Some to_s, frequency_set = None, payload_set = None,
                      updated_at_set = Some now, deleted_at_set = None\<rparr>) st') = Inl e \<longrightarrow>
        fst (transitionState db st i to_s now)
          = Err (''Error transitioning schedule '' @ q @ i @ q @ '': '' @ e))
   \<and> (fst (db (WhereIdUpdate (id_p uprops) (newValues uprops now)) st) = Inl e \<longrightarrow>
        fst (update db st uprops now)
          = Err (''Error updating schedule '' @ q @ id_p uprops @ q @ '': '' @ e))
   \<and> (fst (db (WhereIdUpdate i
                  \<lparr>state_set = Some DELETED, frequency_set = None, payload_set = None,
                   updated_at_set = Some now, deleted_at_set = Some now\<rparr>) st) = Inl e \<longrightarrow>
        fst (remove db st i now)
          = Err (''Error deleting schedule '' @ q @ i @ q @ '': '' @ e))
   \<and> (fst (db (LimitWhere (limit_q params)
                  (case name_q params of
                     None \<Rightarrow> None
                   | Some n \<Rightarrow> if n \<noteq> [] then Some n else None)
                  (state_q params)) st) = Inl e \<longrightarrow>
        fst (search db st params) = Err (''Error searching schedules: '' @ e))"
proof (intro conjI impI)
  assume "fst (db (Insert (DbSchedule_to (newSchedule now uuid props))) st) = Inl e"
  then show "fst (create db st now uuid props)
        = Err (''Error creating schedule '' @ q @ name props @ q @ '': '' @ e)"
    by (cases "db (Insert (DbSchedule_to (newSchedule now uuid props))) st") (simp add: create_def)
next
  assume a: "fst (db (WhereIdFirst i) st) = Inl e"
  then show g: "fst (get db st i) = Err (''Error getting schedule '' @ q @ i @ q @ '': '' @ e)"
    by (cases "db (WhereIdFirst i) st") (simp add: get_def)
  then show "fst (transitionState db st i to_s now)
      = Err (''Error: no schedule '' @ q @ i @ q @ '' found'')"
    by (cases "get db st i") (simp add: transitionState_def)
next
  assume a: "db (WhereIdFirst i) st = (Inr (r # rs), st') \<and> isOk (validate (state_col r) to_s)
        \<and> fst (db (WhereIdUpdate i
                     \<lparr>state_set = Some to_s, frequency_set = None, payload_set = None,
                      updated_at_set = Some now, deleted_at_set = None\<rparr>) st') = Inl e"
  then have g: "get db st i = (Ok (DbSchedule_from r), st')"
    by (simp add: get_def)
  from a obtain tr where v: "validate (state_col r) to_s = Ok tr"
    by (cases "validate (state_col r) to_s") simp_all
  from a show "fst (transitionState db st i to_s now)
          = Err (''Error transitioning schedule '' @ q @ i @ q @ '': '' @ e)"
    by (cases "db (WhereIdUpdate i
                     \<lparr>state_set = Some to_s, frequency_set = None, payload_set = None,
                      updated_at_set = Some now, deleted_at_set = None\<rparr>) st'")
       (simp add: transitionState_def g v DbSchedule_from_sel)
next
  assume "fst (db (WhereIdUpdate (id_p uprops) (newValues uprops now)) st) = Inl e"
  then show "fst (update db st uprops now)
          = Err (''Error updating schedule '' @ q @ id_p uprops @ q @ '': '' @ e)"
    by (cases "db (WhereIdUpdate (id_p uprops) (newValues uprops now)) st") (simp add: update_def)
next
  assume "fst (db (WhereIdUpdate i
                  \<lparr>state_set = Some DELETED, frequency_set = None, payload_set = None,
                   updated_at_set = Some now, deleted_at_set = Some now\<rparr>) st) = Inl e"
  then show "fst (remove db st i now)
          = Err (''Error deleting schedule '' @ q @ i @ q @ '': '' @ e)"
    by (cases "db (WhereIdUpdate i
                  \<lparr>state_set = Some DELETED, frequency_set = None, payload_set = None,
                   updated_at_set = Some now, deleted_at_set = Some now\<rparr>) st")
       (simp add: remove_def)
next
  assume "fst (db (LimitWhere (limit_q params)
                  (case name_q params of
                     None \<Rightarrow> None
                   | Some n \<Rightarrow> if n \<noteq> [] then Some n else None)
                  (state_q params)) st) = Inl e"
  then show "fst (search db st params) = Err (''Error searching schedules: '' @ e)"
    by (cases "db (LimitWhere (limit_q params)
                  (case name_q params of
                     None \<Rightarrow> None
                   | Some n \<Rightarrow> if n \<noteq> [] then Some n else None)
                  (state_q params)) st")
       (simp add: search_def)
qed

text \<open>
  C8 as stated fails: a fault at the read of \<open>transitionState\<close>, which \<open>get\<close> reports with
  its cause, comes back as the not-found error, which holds neither the cause nor the
  name of the operation.
\<close>

theorem transitionState_read_fault_counterexample:
  "fst (get (failing ''ECONNRESET'') () ''s1'')
     = Err (''Error getting schedule '' @ q @ ''s1'' @ q @ '': ECONNRESET'')
   \<and> fst (transitionState (failing ''ECONNRESET'') () ''s1'' PAUSED 200)
       = Err (''Error: no schedule '' @ q @ ''s1'' @ q @ '' found'')
   \<and> \<not> mentions ''ECONNRESET'' (''Error: no schedule '' @ q @ ''s1'' @ q @ '' found'')
   \<and> \<not> mentions ''transition'' (''Error: no schedule '' @ q @ ''s1'' @ q @ '' found'')"
  by (simp add: transitionState_def get_def failing_def q_def)

theorem fault_rewrapped_witness:
  "fst (create (failing ''ECONNRESET'') () 100 ''s1'' (ex_props 5))
     = Err (''Error creating schedule '' @ q @ ''a'' @ q @ '': ECONNRESET'')
   \<and> fst (get (failing ''ECONNRESET'') () ''s1'')
       = Err (''Error getting schedule '' @ q @ ''s1'' @ q @ '': ECONNRESET'')
   \<and> read_only (WhereIdFirst ''s1'') (ex_table 5)
       = (Inr [stored (interval_out 5) (DbSchedule_to (ex_schedule 5))], ex_table 5)
   \<and> isOk (validate STARTED PAUSED)
   \<and> fst (transitionState read_only (ex_table 5) ''s1'' PAUSED 200)
       = Err (''Error transitioning schedule '' @ q @ ''s1'' @ q
                @ '': cannot execute UPDATE in a read-only transaction'')
   \<and> fst (update (failing ''ECONNRESET'') ()
             \<lparr>id_p = ''s1'', frequencyMs_p = Some 7, payload_p = None\<rparr> 300)
       = Err (''Error updating schedule '' @ q @ ''s1'' @ q @ '': ECONNRESET'')
   \<and> fst (remove (failing ''ECONNRESET'') () ''s1'' 300)
       = Err (''Error deleting schedule '' @ q @ ''s1'' @ q @ '': ECONNRESET'')
   \<and> fst (search (failing ''ECONNRESET'') () \<lparr>name_q = Some ''a'', state_q = None, limit_q = 1\<rparr>)
       = Err ''Error searching schedules: ECONNRESET''"
proof -
  have rd: "read_only (WhereIdFirst ''s1'') (ex_table 5)
       = (Inr [stored (interval_out 5) (DbSchedule_to (ex_schedule 5))], ex_table 5)"
    by (simp add: ex_table_eq stored_sel DbSchedule_to_sel ex_schedule_sel)
  have st: "state_col (stored (interval_out 5) (DbSchedule_to (ex_schedule 5))) = STARTED"
    by (simp add: stored_sel DbSchedule_to_sel ex_schedule_sel)
  have v: "isOk (validate STARTED PAUSED)"
    by (simp add: validate_eq)
  show ?thesis
    using fault_rewrapped [where db = "failing ''ECONNRESET''" and st = "()" and e = "''ECONNRESET''"
        and now = 100 and uuid = "''s1''" and props = "ex_props 5" and i = "''s1''"
        and uprops = "\<lparr>id_p = ''s1'', frequencyMs_p = Some 7, payload_p = None\<rparr>"
        and params = "\<lparr>name_q = Some ''a'', state_q = None, limit_q = 1\<rparr>"
        and to_s = PAUSED and r = "stored (interval_out 5) (DbSchedule_to (ex_schedule 5))"
        and rs = "[]" and st' = "()"]
      fault_rewrapped [where db = "failing ''ECONNRESET''" and st = "()" and e = "''ECONNRESET''"
        and now = 300 and uuid = "''s1''" and props = "ex_props 5" and i = "''s1''"
        and uprops = "\<lparr>id_p = ''s1'', frequencyMs_p = Some 7, payload_p = None\<rparr>"
        and params = "\<lparr>name_q = Some ''a'', state_q = None, limit_q = 1\<rparr>"
        and to_s = PAUSED and r = "stored (interval_out 5) (DbSchedule_to (ex_schedule 5))"
        and rs = "[]" and st' = "()"]
      fault_rewrapped [where db = read_only and st = "ex_table 5"
        and e = "''cannot execute UPDATE in a read-only transaction''"
        and now = 200 and uuid = "''s1''" and props = "ex_props 5" and i = "''s1''"
        and uprops = "\<lparr>id_p = ''s1'', frequencyMs_p = Some 7, payload_p = None\<rparr>"
        and params = "\<lparr>name_q = Some ''a'', state_q = None, limit_q = 1\<rparr>"
        and to_s = PAUSED and r = "stored (interval_out 5) (DbSchedule_to (ex_schedule 5))"
        and rs = "[]" and st' = "ex_table 5"]
      rd st v
    by (simp add: failing_def ex_props_def)
qed

end
